theory Spec2Isabelle
  imports Main "HOL-Library.Word"
begin

section \<open>Exceptions\<close>

text \<open>
  A Python exception is a value: its class name and its message. Every call of the
  script that can raise returns \<open>exn + 'a\<close>, with \<open>Inl\<close> for the raised exception.
\<close>

datatype exn = Exn (exn_class: string) (exn_msg: string)

definition IndexError :: exn where
  "IndexError = Exn ''IndexError'' ''list index out of range''"

definition ValueError :: exn where
  "ValueError = Exn ''ValueError'' ''images do not match''"

definition AttributeError :: exn where
  "AttributeError = Exn ''AttributeError'' ''NoneType object has no attribute object_localization''"

text \<open>Indexing a Python sequence with a non-negative constant: \<open>xs[i]\<close>.\<close>

definition py_index :: "'a list \<Rightarrow> nat \<Rightarrow> exn + 'a" where
  "py_index xs i = (if i < length xs then Inr (xs ! i) else Inl IndexError)"

section \<open>Bitmaps (PIL images)\<close>

text \<open>
  A PIL image, as far as \<open>app.py\<close> reads it: the colour mode (a string, compared with
  \<open>'RGBA'\<close> on line 87), the size \<open>(width, height)\<close>, the pixels in row-major order, each
  a list of 8-bit band values (what \<open>getdata()\<close> returns), and the \<open>transparency\<close> entry
  of the \<open>info\<close> dictionary, which palette and greyscale PNG files may carry.
\<close>

type_synonym byte = "8 word"

type_synonym pixel = "byte list"

record image =
  mode :: string
  size_img :: "nat \<times> nat"
  pixels :: "pixel list"
  transparency :: "nat option"

text \<open>PIL's band table (\<open>Image.getbands\<close>) for the modes an uploaded PNG or JPEG decodes to.\<close>

definition getbands :: "string \<Rightarrow> string list" where
  "getbands m =
     (if m = ''1'' then [''1'']
      else if m = ''L'' then [''L'']
      else if m = ''P'' then [''P'']
      else if m = ''I'' then [''I'']
      else if m = ''F'' then [''F'']
      else if m = ''LA'' then [''L'', ''A'']
      else if m = ''La'' then [''L'', ''a'']
      else if m = ''PA'' then [''P'', ''A'']
      else if m = ''RGB'' then [''R'', ''G'', ''B'']
      else if m = ''YCbCr'' then [''Y'', ''Cb'', ''Cr'']
      else if m = ''LAB'' then [''L'', ''A'', ''B'']
      else if m = ''HSV'' then [''H'', ''S'', ''V'']
      else if m = ''RGBA'' then [''R'', ''G'', ''B'', ''A'']
      else if m = ''RGBa'' then [''R'', ''G'', ''B'', ''a'']
      else if m = ''RGBX'' then [''R'', ''G'', ''B'', ''X'']
      else if m = ''CMYK'' then [''C'', ''M'', ''Y'', ''K'']
      else [])"

text \<open>The colour modes with an alpha band, and PIL's \<open>has_transparency_data\<close>.\<close>

definition has_alpha_channel :: "string \<Rightarrow> bool" where
  "has_alpha_channel m = (m \<in> set [''LA'', ''La'', ''PA'', ''RGBA'', ''RGBa''])"

definition has_transparency_data :: "image \<Rightarrow> bool" where
  "has_transparency_data im = (has_alpha_channel (mode im) \<or> transparency im \<noteq> None)"

text \<open>
  A well-formed image has one pixel for each position and one value for each band of
  its mode. Every image PIL decodes or creates is well-formed.
\<close>

definition wf_image :: "image \<Rightarrow> bool" where
  "wf_image im =
     (length (pixels im) = fst (size_img im) * snd (size_img im) \<and>
      list_all (\<lambda>p. length p = length (getbands (mode im))) (pixels im))"

text \<open>\<open>Image.new('RGB', size, color)\<close>: every pixel has the given colour, \<open>info\<close> is empty.\<close>

definition new_RGB :: "nat \<times> nat \<Rightarrow> pixel \<Rightarrow> image" where
  "new_RGB sz color =
     \<lparr>mode = ''RGB'', size_img = sz, pixels = replicate (fst sz * snd sz) color,
      transparency = None\<rparr>"

text \<open>
  \<open>Image.split()\<close>: one single-band image for each band of the mode (the image itself
  when it has one band only). Band \<open>k\<close> of a pixel is read with \<open>take 1 (drop k p)\<close>, which
  is the one-band pixel \<open>[p ! k]\<close> on a well-formed image.
\<close>

definition band :: "image \<Rightarrow> nat \<Rightarrow> image" where
  "band im k =
     \<lparr>mode = ''L'', size_img = size_img im, pixels = map (\<lambda>p. take 1 (drop k p)) (pixels im),
      transparency = None\<rparr>"

definition split :: "image \<Rightarrow> image list" where
  "split im =
     (if length (getbands (mode im)) = 1 then [im]
      else map (band im) [0..<length (getbands (mode im))])"

text \<open>
  The blend of PIL's C core for a paste through an \<open>L\<close> mask (\<open>BLEND\<close> and \<open>DIV255\<close> of
  \<open>ImagingUtils.h\<close>): \<open>tmp = out * (255 - mask) + in * mask + 128\<close>, and the result is
  \<open>((tmp >> 8) + tmp) >> 8\<close>, computed on unsigned ints and stored in a byte.
\<close>

definition DIV255 :: "nat \<Rightarrow> nat" where
  "DIV255 a = (let tmp = a + 128 in ((tmp div 256) + tmp) div 256)"

definition BLEND :: "byte \<Rightarrow> byte \<Rightarrow> byte \<Rightarrow> byte" where
  "BLEND a in1 in2 = of_nat (DIV255 (unat in1 * (255 - unat a) + unat in2 * unat a))"

text \<open>
  One pixel of the paste: every band of the destination is blended with the same band of
  the pasted pixel, weighted by the mask value. The destination is \<open>RGB\<close>, so the fourth
  band of an \<open>RGBA\<close> source pixel is not copied.
\<close>

definition paste_mask_L :: "pixel \<Rightarrow> pixel \<Rightarrow> pixel \<Rightarrow> pixel" where
  "paste_mask_L out inp msk =
     (case msk of [] \<Rightarrow> out | a # _ \<Rightarrow> map (\<lambda>(d, s). BLEND a d s) (zip out inp))"

text \<open>
  \<open>dst.paste(im, mask=mask)\<close> as line 90 calls it: no box is given and \<open>im\<close> has the size
  of \<open>dst\<close>, so the box is the whole destination. PIL raises \<open>ValueError\<close> when the mask's
  size is not the pasted image's. An \<open>RGBA\<close> image pasted into an \<open>RGB\<close> one is not
  converted first.
\<close>

definition paste :: "image \<Rightarrow> image \<Rightarrow> image \<Rightarrow> exn + image" where
  "paste dst im msk =
     (if size_img im \<noteq> size_img msk then Inl ValueError
      else Inr (dst\<lparr>pixels :=
             map (\<lambda>(d, s, m). paste_mask_L d s m)
               (zip (pixels dst) (zip (pixels im) (pixels msk)))\<rparr>))"

section \<open>CropNormalizer: lines 87 to 93\<close>

definition white :: pixel where
  "white = [255, 255, 255]"

text \<open>
  \<^verbatim>\<open>
  if cropped_img.mode == 'RGBA':
      background = Image.new('RGB', cropped_img.size, (255, 255, 255))
      background.paste(cropped_img, mask=cropped_img.split()[3])
      final_img = background
  else:
      final_img = cropped_img
  \<close>
\<close>

definition final_img :: "image \<Rightarrow> exn + image" where
  "final_img cropped_img =
     (if mode cropped_img = ''RGBA'' then
        (let background = new_RGB (size_img cropped_img) white in
         case py_index (split cropped_img) 3 of
           Inl e \<Rightarrow> Inl e
         | Inr alpha \<Rightarrow> paste background cropped_img alpha)
      else Inr cropped_img)"

section \<open>Python floats and their fixed-point format\<close>

text \<open>
  A Python float is an IEEE double: a sign and either a magnitude \<open>m * 2 ^ e\<close>, an
  infinity or a NaN. The \<open>score\<close>, \<open>x\<close> and \<open>y\<close> fields of the service's response
  are 32-bit floats, which Python reads as the double of the same value.
\<close>

datatype pyfloat = PyFinite bool nat int | PyInf bool | PyNaN

fun bit_length :: "nat \<Rightarrow> nat" where
  "bit_length n = (if n = 0 then 0 else Suc (bit_length (n div 2)))"

declare bit_length.simps [simp del]

text \<open>\<open>n / d\<close> rounded to the nearest integer, a tie to the even one.\<close>

definition round_half_even :: "nat \<Rightarrow> nat \<Rightarrow> nat" where
  "round_half_even n d =
     (let q = n div d; r = n mod d
      in if d < 2 * r \<or> (2 * r = d \<and> odd q) then q + 1 else q)"

text \<open>
  \<open>x * 100.0\<close>, the first step of the \<open>%\<close> presentation type: the exact product, rounded
  to 53 significant bits when it has more, and an infinity when that exceeds the range.
\<close>

fun mul100 :: "pyfloat \<Rightarrow> pyfloat" where
  "mul100 (PyFinite s m e) =
     (let p = m * 100; k = bit_length p - 53
      in if k = 0 then PyFinite s p e
         else (let q = round_half_even p (2 ^ k)
               in if 1024 < int (bit_length q) + int k + e then PyInf s
                  else PyFinite s q (e + int k)))"
| "mul100 (PyInf s) = PyInf s"
| "mul100 PyNaN = PyNaN"

definition digit :: "nat \<Rightarrow> char" where
  "digit d = ''0123456789'' ! d"

fun digits10 :: "nat \<Rightarrow> string" where
  "digits10 n = (if n < 10 then [digit n] else digits10 (n div 10) @ [digit (n mod 10)])"

declare digits10.simps [simp del]

text \<open>The magnitude in hundredths, correctly rounded (a tie to even).\<close>

definition hundredths :: "nat \<Rightarrow> int \<Rightarrow> nat" where
  "hundredths m e =
     (if 0 \<le> e then m * 2 ^ nat e * 100 else round_half_even (m * 100) (2 ^ nat (- e)))"

text \<open>\<open>format(x, '.2f')\<close> and \<open>format(x, '.2%')\<close>.\<close>

fun format_2f :: "pyfloat \<Rightarrow> string" where
  "format_2f (PyFinite s m e) =
     (let h = hundredths m e
      in (if s then ''-'' else []) @ digits10 (h div 100) @ ''.'' @
         [digit (h mod 100 div 10), digit (h mod 10)])"
| "format_2f (PyInf s) = (if s then ''-inf'' else ''inf'')"
| "format_2f PyNaN = ''nan''"

definition format_2pct :: "pyfloat \<Rightarrow> string" where
  "format_2pct v = format_2f (mul100 v) @ ''%''"

section \<open>The service's response\<close>

datatype normalized_vertex = NormalizedVertex (x_of: pyfloat) (y_of: pyfloat)

record localized_object =
  name :: string
  score :: pyfloat
  bounding_poly :: "normalized_vertex list option"

record response =
  error_message :: string
  localized_object_annotations :: "localized_object list"

text \<open>
  \<open>obj.bounding_poly.normalized_vertices\<close>: a message field that is not set reads as the
  empty message, whose repeated field is the empty sequence.
\<close>

definition normalized_vertices :: "localized_object \<Rightarrow> normalized_vertex list" where
  "normalized_vertices obj = (case bounding_poly obj of None \<Rightarrow> [] | Some vs \<Rightarrow> vs)"

section \<open>What a run of the script does\<close>

text \<open>
  The Streamlit calls of the script and its two calls out (the JPEG encoder and the remote
  service), in the order the script makes them. Strings are UTF-8.
\<close>

datatype effect =
    StError string
  | StException exn
  | StInfo string
  | StSuccess string
  | StWarning string
  | StMarkdown string
  | StWrite string
  | StCaption string
  | StText string
  | StSetPageConfig
  | StTitle string
  | StSidebarHeader string
  | StSidebarSelectbox string
  | StFileUploader string
  | StSubheader string
  | StCropper image "(nat \<times> nat) option"
  | StImage image string
  | StButton string
  | JpegSave image
  | ObjectLocalization "byte list"


definition check_mark :: string where
  "check_mark = [CHR 0xE2, CHR 0x9C, CHR 0x85]"

definition magnifier :: string where
  "magnifier = [CHR 0xF0, CHR 0x9F, CHR 0x94, CHR 0x8D]"






section \<open>ResultRenderer: lines 108 to 127\<close>

text \<open>The body of the \<open>try\<close> on lines 122 and 123: the text of the caption, or the exception.\<close>

definition box_text :: "localized_object \<Rightarrow> exn + string" where
  "box_text obj =
     (let v = normalized_vertices obj in
      case py_index v 0 of
        Inl e \<Rightarrow> Inl e
      | Inr v0 \<Rightarrow>
          (case py_index v 2 of
             Inl e \<Rightarrow> Inl e
           | Inr v2 \<Rightarrow>
               Inr (''Box: ('' @ format_2f (x_of v0) @ '', '' @ format_2f (y_of v0) @
                    '') to ('' @ format_2f (x_of v2) @ '', '' @ format_2f (y_of v2) @ '')'')))"

text \<open>Lines 118 to 125, one pass of the loop; the bare \<open>except\<close> catches every exception.\<close>

definition entry_line :: "localized_object \<Rightarrow> string" where
  "entry_line obj = ''- **'' @ name obj @ ''** (Score: '' @ format_2pct (score obj) @ '')''"

definition render_object :: "localized_object \<Rightarrow> effect list" where
  "render_object obj =
     [StWrite (entry_line obj),
      (case box_text obj of
         Inr s \<Rightarrow> StCaption s
       | Inl e \<Rightarrow> StCaption ''Bounding box data unavailable.'')]"

primrec render_objects :: "localized_object list \<Rightarrow> effect list" where
  "render_objects [] = []"
| "render_objects (obj # objs) = render_object obj @ render_objects objs"

definition render_response :: "response \<Rightarrow> effect list" where
  "render_response response =
     (let localized_objects = localized_object_annotations response in
      if error_message response \<noteq> [] then
        [StError (''API Error: '' @ error_message response)]
      else
        [StSuccess (check_mark @ '' Object Localization Complete''),
         StMarkdown (''### '' @ magnifier @ '' Detected Objects:'')] @
        (if localized_objects \<noteq> [] then render_objects localized_objects
         else [StInfo ''No specific objects were localized in the selected region.'']))"

section \<open>The script\<close>

text \<open>
  What the script calls and does not define: the secret store, the JSON parser, the
  client's constructor, the image decoder, the cropper widget (whose value is the crop the
  user has selected), the preview \<open>st.image\<close>, the JPEG encoder and the remote service.
  Each of them can raise. The decoder is lazy, so a file it accepts can still fail to load
  in the cropper or in the preview, and the cropper can fail on a bitmap too small for the
  aspect ratio asked for.
\<close>

record ('j, 'c) env =
  secrets :: "string \<Rightarrow> exn + string"
  json_loads :: "string \<Rightarrow> exn + 'j"
  from_service_account_info :: "'j \<Rightarrow> exn + 'c"
  Image_open :: "byte list \<Rightarrow> exn + image"
  st_cropper :: "image \<Rightarrow> (nat \<times> nat) option \<Rightarrow> exn + image"
  st_image :: "image \<Rightarrow> exn + unit"
  save_JPEG :: "image \<Rightarrow> exn + byte list"
  object_localization :: "'c \<Rightarrow> byte list \<Rightarrow> exn + response"






text \<open>Lines 18 to 20, the body of the \<open>try\<close>.\<close>

definition load_client :: "('j, 'c) env \<Rightarrow> exn + 'c" where
  "load_client env =
     (case secrets env ''GOOGLE_APPLICATION_CREDENTIALS'' of
        Inl e \<Rightarrow> Inl e
      | Inr creds_json \<Rightarrow>
          (case json_loads env creds_json of
             Inl e \<Rightarrow> Inl e
           | Inr creds_dict \<Rightarrow> from_service_account_info env creds_dict))"


text \<open>
  Lines 84 to 127, run when the button is pressed: the effects and the exception that ends
  the run, if one is raised. Nothing here catches what the encoder or the service raise.
\<close>

definition run_detection ::
  "('j, 'c) env \<Rightarrow> 'c option \<Rightarrow> image \<Rightarrow> effect list \<times> exn option" where
  "run_detection env client cropped_img =
     (let out = [StInfo ''Running Object Localization on cropped image...''] in
      case final_img cropped_img of
        Inl e \<Rightarrow> (out, Some e)
      | Inr fin \<Rightarrow>
          (case save_JPEG env fin of
             Inl e \<Rightarrow> (out @ [JpegSave fin], Some e)
           | Inr content \<Rightarrow>
               (case client of
                  None \<Rightarrow> (out @ [JpegSave fin], Some AttributeError)
                | Some c \<Rightarrow>
                    (case object_localization env c content of
                       Inl e \<Rightarrow> (out @ [JpegSave fin, ObjectLocalization content], Some e)
                     | Inr response \<Rightarrow>
                         (out @ [JpegSave fin, ObjectLocalization content] @
                          render_response response, None)))))"


text \<open>The bitmaps a run hands to the JPEG encoder and the buffers it sends to the service.\<close>

fun saved_images :: "effect list \<Rightarrow> image list" where
  "saved_images [] = []"
| "saved_images (JpegSave im # es) = im # saved_images es"
| "saved_images (_ # es) = saved_images es"


section \<open>Example inputs\<close>

text \<open>
  Bitmaps of the modes a PNG or JPEG upload decodes to, and an environment in which every
  call succeeds, except that the encoder refuses the modes JPEG cannot store, as PIL does.
\<close>

definition transparent_RGBA :: image where
  "transparent_RGBA =
     \<lparr>mode = ''RGBA'', size_img = (10, 10), pixels = replicate 100 [0, 0, 0, 0],
      transparency = None\<rparr>"

definition two_pixel_RGBA :: image where
  "two_pixel_RGBA =
     \<lparr>mode = ''RGBA'', size_img = (2, 1), pixels = [[10, 20, 30, 0], [10, 20, 30, 128]],
      transparency = None\<rparr>"

definition opaque_RGBA :: image where
  "opaque_RGBA =
     \<lparr>mode = ''RGBA'', size_img = (2, 1), pixels = [[10, 20, 30, 255], [0, 0, 0, 255]],
      transparency = None\<rparr>"

definition grey_alpha_LA :: image where
  "grey_alpha_LA =
     \<lparr>mode = ''LA'', size_img = (1, 1), pixels = [[0, 0]], transparency = None\<rparr>"

definition palette_P :: image where
  "palette_P =
     \<lparr>mode = ''P'', size_img = (1, 1), pixels = [[0]], transparency = Some 0\<rparr>"

definition plain_RGB :: image where
  "plain_RGB =
     \<lparr>mode = ''RGB'', size_img = (2, 1), pixels = [[10, 20, 30], [0, 0, 0]],
      transparency = None\<rparr>"

definition photo_RGB :: image where
  "photo_RGB = new_RGB (640, 360) [10, 20, 30]"

definition empty_response :: response where
  "empty_response = \<lparr>error_message = [], localized_object_annotations = []\<rparr>"

definition ready_env :: "(unit, unit) env" where
  "ready_env =
     \<lparr>secrets = (\<lambda>k. Inr ''{}''),
      json_loads = (\<lambda>s. Inr ()),
      from_service_account_info = (\<lambda>d. Inr ()),
      Image_open = (\<lambda>f. Inr photo_RGB),
      st_cropper = (\<lambda>im a. Inr im),
      st_image = (\<lambda>im. Inr ()),
      save_JPEG = (\<lambda>im.
        if mode im \<in> set [''1'', ''L'', ''RGB'', ''RGBX'', ''CMYK'', ''YCbCr''] then Inr [255, 216]
        else Inl (Exn ''OSError'' (''cannot write mode '' @ mode im @ '' as JPEG''))),
      object_localization = (\<lambda>c content. Inr empty_response)\<rparr>"



definition cat :: localized_object where
  "cat =
     \<lparr>name = ''Cat'', score = PyFinite False 14653220 (- 24),
      bounding_poly = Some
        [NormalizedVertex (PyFinite False 13421773 (- 27)) (PyFinite False 13421773 (- 26)),
         NormalizedVertex (PyFinite False 15099494 (- 24)) (PyFinite False 13421773 (- 26)),
         NormalizedVertex (PyFinite False 15099494 (- 24)) (PyFinite False 13421773 (- 24)),
         NormalizedVertex (PyFinite False 13421773 (- 27)) (PyFinite False 13421773 (- 24))]\<rparr>"

definition two_vertex_dog :: localized_object where
  "two_vertex_dog =
     \<lparr>name = ''Dog'', score = PyFinite False 8388608 (- 24),
      bounding_poly = Some
        [NormalizedVertex (PyFinite False 0 0) (PyFinite False 0 0),
         NormalizedVertex (PyFinite False 8388608 (- 23)) (PyFinite False 8388608 (- 23))]\<rparr>"

definition three_vertex_dog :: localized_object where
  "three_vertex_dog =
     \<lparr>name = ''Dog'', score = PyFinite False 8388608 (- 24),
      bounding_poly = Some
        [NormalizedVertex (PyFinite False 0 0) (PyFinite False 0 0),
         NormalizedVertex (PyFinite False 8388608 (- 23)) (PyFinite False 0 0),
         NormalizedVertex (PyFinite False 8388608 (- 23)) (PyFinite False 8388608 (- 23))]\<rparr>"

definition cat_response :: response where
  "cat_response = \<lparr>error_message = [], localized_object_annotations = [cat]\<rparr>"

definition quota_response :: response where
  "quota_response =
     \<lparr>error_message = ''quota exceeded'', localized_object_annotations = [cat]\<rparr>"

definition dog_response :: response where
  "dog_response =
     \<lparr>error_message = [], localized_object_annotations = [two_vertex_dog, three_vertex_dog]\<rparr>"

definition dog_env :: "(unit, unit) env" where
  "dog_env = ready_env\<lparr>object_localization := (\<lambda>c content. Inr dog_response)\<rparr>"


section \<open>Facts about the blend and the composition\<close>

lemma DIV255_mult_255: "n < 256 \<Longrightarrow> DIV255 (n * 255) = n"
  unfolding DIV255_def Let_def by simp

lemma unat_byte_less: "unat (b :: byte) < 256"
proof -
  have "unat b < 2 ^ LENGTH(8)"
    by (rule unsigned_less)
  then show ?thesis
    by simp
qed

lemma BLEND_transparent: "BLEND 0 d s = d"
  using DIV255_mult_255 [OF unat_byte_less, of d] by (simp add: BLEND_def)

lemma BLEND_opaque: "BLEND 255 d s = s"
  using DIV255_mult_255 [OF unat_byte_less, of s] by (simp add: BLEND_def)

lemma split_RGBA: "mode im = ''RGBA'' \<Longrightarrow> py_index (split im) 3 = Inr (band im 3)"
  by (simp add: split_def getbands_def py_index_def numeral_eq_Suc upt_rec)

lemma zip_with_map: "zip ps (map f ps) = map (\<lambda>p. (p, f p)) ps"
  by (induction ps) simp_all

lemma final_img_RGBA:
  assumes "mode im = ''RGBA''"
  shows "final_img im =
     Inr \<lparr>mode = ''RGB'', size_img = size_img im,
          pixels = map (\<lambda>s. paste_mask_L white s (take 1 (drop 3 s)))
                     (take (fst (size_img im) * snd (size_img im)) (pixels im)),
          transparency = None\<rparr>"
  using assms
  by (simp add: final_img_def split_RGBA paste_def new_RGB_def band_def zip_with_map
      zip_replicate1 take_map)

lemma final_img_other: "mode im \<noteq> ''RGBA'' \<Longrightarrow> final_img im = Inr im"
  by (simp add: final_img_def)

lemma wf_pixel_RGBA:
  assumes "wf_image im" and "mode im = ''RGBA''" and "i < length (pixels im)"
  shows "\<exists>r g b a. pixels im ! i = [r, g, b, a]"
proof -
  from assms have "length (pixels im ! i) = 4"
    by (simp add: wf_image_def list_all_length getbands_def)
  then show ?thesis
    by (cases "pixels im ! i" rule: list.exhaust) (auto simp: length_Suc_conv numeral_eq_Suc)
qed

lemma saved_images_append: "saved_images (xs @ ys) = saved_images xs @ saved_images ys"
  by (induction xs rule: saved_images.induct) simp_all

lemma saved_images_render_objects: "saved_images (render_objects objs) = []"
  by (induction objs) (simp_all add: render_object_def saved_images_append split: sum.splits)

lemma saved_images_render_response: "saved_images (render_response r) = []"
  by (simp add: render_response_def Let_def saved_images_render_objects)

lemma saved_images_run_detection:
  assumes "final_img im = Inr fin"
  shows "saved_images (fst (run_detection env client im)) = [fin]"
  using assms
  by (simp add: run_detection_def Let_def saved_images_append saved_images_render_response
      split: sum.splits option.splits)

lemma mode_final_img:
  assumes "final_img im = Inr out"
  shows "mode out \<noteq> ''RGBA''"
proof (cases "mode im = ''RGBA''")
  case True
  with assms final_img_RGBA [OF True] show ?thesis by auto
next
  case False
  with assms show ?thesis by (simp add: final_img_def)
qed

lemma opaque_RGBA_keeps_colours:
  assumes "mode im = ''RGBA''" and "wf_image im" and "\<forall>p\<in>set (pixels im). p ! 3 = 255"
  shows "final_img im =
     Inr \<lparr>mode = ''RGB'', size_img = size_img im, pixels = map (take 3) (pixels im),
          transparency = None\<rparr>"
proof -
  have len: "length (pixels im) = fst (size_img im) * snd (size_img im)"
    using assms(2) by (simp add: wf_image_def)
  have "paste_mask_L white p (take 1 (drop 3 p)) = take 3 p" if "p \<in> set (pixels im)" for p
  proof -
    from that obtain i where i: "i < length (pixels im)" and p: "p = pixels im ! i"
      by (auto simp: in_set_conv_nth)
    obtain r g b a where q: "pixels im ! i = [r, g, b, a]"
      using wf_pixel_RGBA [OF assms(2) assms(1) i] by blast
    have "a = 255"
      using assms(3) that p q by auto
    then show ?thesis
      by (simp add: p q paste_mask_L_def white_def BLEND_opaque)
  qed
  then show ?thesis
    using final_img_RGBA [OF assms(1)] len by simp
qed

text \<open>
  A 10 by 10 bitmap that is transparent everywhere becomes a white opaque bitmap of the
  same size, and a bitmap whose alpha is 255 everywhere keeps its colours.
\<close>

lemma transparent_bitmap_becomes_white:
  "final_img transparent_RGBA = Inr (new_RGB (10, 10) white)"
proof -
  have "paste_mask_L white [0, 0, 0, 0] (take 1 (drop 3 [0, 0, 0, 0])) = white"
    by (simp add: paste_mask_L_def white_def BLEND_transparent)
  then show ?thesis
    using final_img_RGBA [of transparent_RGBA]
    by (simp add: transparent_RGBA_def new_RGB_def del: take_Suc_Cons drop_Suc_Cons)
qed

lemma opaque_bitmap_keeps_colours:
  "final_img opaque_RGBA =
     Inr \<lparr>mode = ''RGB'', size_img = (2, 1), pixels = [[10, 20, 30], [0, 0, 0]],
          transparency = None\<rparr>"
proof -
  have "mode opaque_RGBA = ''RGBA''" and "wf_image opaque_RGBA"
    and "\<forall>p\<in>set (pixels opaque_RGBA). p ! 3 = 255"
    by (simp_all add: opaque_RGBA_def wf_image_def getbands_def)
  then show ?thesis
    using opaque_RGBA_keeps_colours [of opaque_RGBA] by (simp add: opaque_RGBA_def)
qed

section \<open>Facts about the formats and the renderer\<close>

text \<open>
  The product with 100 is exact whenever it fits 53 bits, as it does for every 32-bit
  float, whose magnitude has 24 bits.
\<close>

lemma bit_length_le: "n < 2 ^ k \<Longrightarrow> bit_length n \<le> k"
proof (induction k arbitrary: n)
  case 0
  then have "n = 0" by simp
  then show ?case by (simp add: bit_length.simps [of 0])
next
  case (Suc k)
  show ?case
  proof (cases "n = 0")
    case True
    then show ?thesis by (simp add: bit_length.simps [of 0])
  next
    case False
    from Suc.prems have "n div 2 < 2 ^ k" by simp
    then have "bit_length (n div 2) \<le> k" by (rule Suc.IH)
    with False show ?thesis by (subst bit_length.simps) simp
  qed
qed

lemma mul100_exact:
  assumes "m * 100 < 2 ^ 53"
  shows "mul100 (PyFinite s m e) = PyFinite s (m * 100) e"
  using bit_length_le [OF assms] by (simp add: Let_def)

lemma format_2pct_exact:
  assumes "m * 100 < 2 ^ 53"
  shows "format_2pct (PyFinite s m e) = format_2f (PyFinite s (m * 100) e) @ ''%''"
  by (simp only: format_2pct_def mul100_exact [OF assms])

lemma format_cat_score: "format_2pct (PyFinite False 14653220 (- 24)) = ''87.34%''"
proof -
  have "format_2f (PyFinite False (14653220 * 100) (- 24)) = ''87.34''"
    by (simp add: hundredths_def round_half_even_def Let_def digits10.simps digit_def)
  then show ?thesis
    by (simp add: format_2pct_exact del: format_2f.simps)
qed

lemma format_half_score: "format_2pct (PyFinite False 8388608 (- 24)) = ''50.00%''"
proof -
  have "format_2f (PyFinite False (8388608 * 100) (- 24)) = ''50.00''"
    by (simp add: hundredths_def round_half_even_def Let_def digits10.simps digit_def)
  then show ?thesis
    by (simp add: format_2pct_exact del: format_2f.simps)
qed

lemma format_cat_box:
  "format_2f (PyFinite False 13421773 (- 27)) = ''0.10''"
  "format_2f (PyFinite False 13421773 (- 26)) = ''0.20''"
  "format_2f (PyFinite False 15099494 (- 24)) = ''0.90''"
  "format_2f (PyFinite False 13421773 (- 24)) = ''0.80''"
  by (simp_all add: hundredths_def round_half_even_def Let_def digits10.simps digit_def)

lemma format_unit_box:
  "format_2f (PyFinite False 0 0) = ''0.00''"
  "format_2f (PyFinite False 8388608 (- 23)) = ''1.00''"
  by (simp_all add: hundredths_def round_half_even_def Let_def digits10.simps digit_def)

lemma render_objects_concat: "render_objects objs = concat (map render_object objs)"
  by (induction objs) simp_all

lemma box_text_three:
  assumes "3 \<le> length (normalized_vertices obj)"
  shows "box_text obj =
     Inr (''Box: ('' @ format_2f (x_of (normalized_vertices obj ! 0)) @ '', '' @
          format_2f (y_of (normalized_vertices obj ! 0)) @ '') to ('' @
          format_2f (x_of (normalized_vertices obj ! 2)) @ '', '' @
          format_2f (y_of (normalized_vertices obj ! 2)) @ '')'')"
  using assms by (auto simp: box_text_def py_index_def Let_def)

lemma box_text_short:
  assumes "length (normalized_vertices obj) < 3"
  shows "box_text obj = Inl IndexError"
  using assms by (simp add: box_text_def py_index_def Let_def)

lemma format_2pct_finite:
  assumes "bit_length (m * 100) \<le> 53"
  shows "format_2pct (PyFinite s m e) =
     (if s then ''-'' else []) @ digits10 (hundredths (m * 100) e div 100) @ ''.'' @
     [digit (hundredths (m * 100) e mod 100 div 10), digit (hundredths (m * 100) e mod 10)] @
     ''%''"
  using assms by (simp add: format_2pct_def Let_def)

lemma load_client_fails:
  "load_client env = Inl e \<longleftrightarrow>
     secrets env ''GOOGLE_APPLICATION_CREDENTIALS'' = Inl e \<or>
     (\<exists>creds_json. secrets env ''GOOGLE_APPLICATION_CREDENTIALS'' = Inr creds_json \<and>
        (json_loads env creds_json = Inl e \<or>
         (\<exists>creds_dict. json_loads env creds_json = Inr creds_dict \<and>
            from_service_account_info env creds_dict = Inl e)))"
  by (auto simp: load_client_def split: sum.splits)

section \<open>CropNormalizer: the claims\<close>

text \<open>
  C6. A bitmap whose colour mode has no alpha channel is not touched: \<open>final_img\<close> is the
  input itself, and the one bitmap a detection run hands to the JPEG encoder is that input.
\<close>

theorem no_alpha_passed_unchanged:
  assumes "\<not> has_alpha_channel (mode im)"
  shows "final_img im = Inr im \<and> saved_images (fst (run_detection env client im)) = [im]"
proof -
  have "mode im \<noteq> ''RGBA''"
    using assms by (auto simp: has_alpha_channel_def)
  then have "final_img im = Inr im"
    by (rule final_img_other)
  then show ?thesis
    by (simp add: saved_images_run_detection)
qed

theorem no_alpha_passed_unchanged_witness:
  "\<not> has_alpha_channel (mode plain_RGB) \<and> final_img plain_RGB = Inr plain_RGB \<and>
   saved_images (fst (run_detection ready_env (Some ()) plain_RGB)) = [plain_RGB]"
proof -
  have h: "\<not> has_alpha_channel (mode plain_RGB)"
    by (simp add: plain_RGB_def has_alpha_channel_def)
  show ?thesis
    using no_alpha_passed_unchanged [OF h, of ready_env "Some ()"] h by simp
qed

text \<open>
  C9. The composition runs exactly when the mode is \<open>RGBA\<close>: \<open>final_img\<close> returns its
  input, and the encoder receives the input itself, if and only if the mode is anything
  else, transparency or not.
\<close>

theorem composite_iff_mode_RGBA:
  "(final_img im = Inr im) = (mode im \<noteq> ''RGBA'') \<and>
   (saved_images (fst (run_detection env client im)) = [im]) = (mode im \<noteq> ''RGBA'')"
proof (cases "mode im = ''RGBA''")
  case True
  from final_img_RGBA [OF True] obtain out where o: "final_img im = Inr out" and "mode out = ''RGB''"
    by simp
  then have "out \<noteq> im"
    using True by auto
  then show ?thesis
    using o True saved_images_run_detection [OF o, of env client] by simp
next
  case False
  then show ?thesis
    by (simp add: final_img_other saved_images_run_detection)
qed

theorem composite_iff_mode_RGBA_witness:
  "has_transparency_data grey_alpha_LA \<and> has_transparency_data palette_P \<and>
   final_img grey_alpha_LA = Inr grey_alpha_LA \<and> final_img palette_P = Inr palette_P \<and>
   saved_images (fst (run_detection ready_env (Some ()) palette_P)) = [palette_P] \<and>
   final_img two_pixel_RGBA \<noteq> Inr two_pixel_RGBA"
  using composite_iff_mode_RGBA [of grey_alpha_LA ready_env "Some ()"]
    composite_iff_mode_RGBA [of palette_P ready_env "Some ()"]
    composite_iff_mode_RGBA [of two_pixel_RGBA ready_env "Some ()"]
  by (simp add: grey_alpha_LA_def palette_P_def two_pixel_RGBA_def has_transparency_data_def
      has_alpha_channel_def)

text \<open>
  C1, as the code has it. An \<open>RGBA\<close> bitmap is pasted on a white \<open>RGB\<close> bitmap of the same
  size through its alpha band: the bitmap handed to the encoder has no transparency, each
  of its pixels is the blend of white and the input pixel weighted by the input's alpha,
  and a pixel whose alpha was 0 is white.
\<close>

theorem composite_RGBA_on_white:
  assumes "mode im = ''RGBA''" and "wf_image im"
  shows "\<exists>out. final_img im = Inr out \<and>
           saved_images (fst (run_detection env client im)) = [out] \<and>
           mode out = ''RGB'' \<and> size_img out = size_img im \<and> wf_image out \<and>
           \<not> has_transparency_data out \<and>
           (\<forall>i<length (pixels im).
              pixels out ! i =
                map (\<lambda>c. BLEND (pixels im ! i ! 3) 255 (pixels im ! i ! c)) [0, 1, 2]) \<and>
           (\<forall>i<length (pixels im). pixels im ! i ! 3 = 0 \<longrightarrow> pixels out ! i = white)"
proof -
  define out where "out =
     \<lparr>mode = ''RGB'', size_img = size_img im,
      pixels = map (\<lambda>s. paste_mask_L white s (take 1 (drop 3 s))) (pixels im),
      transparency = None\<rparr>"
  have len: "length (pixels im) = fst (size_img im) * snd (size_img im)"
    using assms(2) by (simp add: wf_image_def)
  have fin: "final_img im = Inr out"
    using final_img_RGBA [OF assms(1)] len by (simp add: out_def)
  have px: "pixels out ! i = map (\<lambda>c. BLEND (pixels im ! i ! 3) 255 (pixels im ! i ! c)) [0, 1, 2]"
    if lt: "i < length (pixels im)" for i
  proof -
    obtain r g b a where p: "pixels im ! i = [r, g, b, a]"
      using wf_pixel_RGBA [OF assms(2) assms(1) lt] by blast
    show ?thesis
      using lt by (simp add: out_def p paste_mask_L_def white_def)
  qed
  have wh: "pixels out ! i = white" if "i < length (pixels im)" and "pixels im ! i ! 3 = 0" for i
    using px [OF that(1)] that(2) by (simp add: BLEND_transparent white_def)
  have n: "length (pixels out) = length (pixels im)"
    by (simp add: out_def)
  have "length (pixels out ! i) = 3" if "i < length (pixels im)" for i
    by (simp add: px [OF that])
  then have wf: "wf_image out"
    using len n by (simp add: wf_image_def list_all_length getbands_def) (simp add: out_def)
  have op: "\<not> has_transparency_data out"
    by (simp add: out_def has_transparency_data_def has_alpha_channel_def)
  show ?thesis
    using fin saved_images_run_detection [OF fin] wf op px wh
    by (intro exI [of _ out]) (simp add: out_def)
qed

theorem composite_RGBA_on_white_witness:
  "mode two_pixel_RGBA = ''RGBA'' \<and> wf_image two_pixel_RGBA \<and>
   (\<exists>out. final_img two_pixel_RGBA = Inr out \<and>
      saved_images (fst (run_detection ready_env (Some ()) two_pixel_RGBA)) = [out] \<and>
      mode out = ''RGB'' \<and> \<not> has_transparency_data out \<and> pixels out ! 0 = white)"
proof -
  have m: "mode two_pixel_RGBA = ''RGBA''"
    by (simp add: two_pixel_RGBA_def)
  have w: "wf_image two_pixel_RGBA"
    by (simp add: two_pixel_RGBA_def wf_image_def getbands_def)
  obtain out where o: "final_img two_pixel_RGBA = Inr out"
    and s: "saved_images (fst (run_detection ready_env (Some ()) two_pixel_RGBA)) = [out]"
    and md: "mode out = ''RGB''"
    and tr: "\<not> has_transparency_data out"
    and wh: "\<forall>i<length (pixels two_pixel_RGBA).
               pixels two_pixel_RGBA ! i ! 3 = 0 \<longrightarrow> pixels out ! i = white"
    using composite_RGBA_on_white [OF m w, of ready_env "Some ()"] by blast
  have "pixels out ! 0 = white"
    using wh by (simp add: two_pixel_RGBA_def)
  then show ?thesis
    using m w o s md tr by blast
qed

text \<open>
  C1 as stated does not hold for the other modes with an alpha channel: a greyscale bitmap
  with alpha (mode \<open>LA\<close>) whose only pixel is fully transparent goes to the encoder as it
  is, still with its alpha band and not white.
\<close>

theorem alpha_mode_LA_not_composited:
  "has_alpha_channel (mode grey_alpha_LA) \<and> wf_image grey_alpha_LA \<and>
   size_img grey_alpha_LA = (1, 1) \<and> pixels grey_alpha_LA = [[0, 0]] \<and>
   final_img grey_alpha_LA = Inr grey_alpha_LA \<and>
   saved_images (fst (run_detection ready_env (Some ()) grey_alpha_LA)) = [grey_alpha_LA] \<and>
   has_transparency_data grey_alpha_LA \<and> pixels grey_alpha_LA \<noteq> [white]"
  by (simp add: grey_alpha_LA_def has_alpha_channel_def has_transparency_data_def wf_image_def
      getbands_def final_img_def run_detection_def ready_env_def white_def)

text \<open>
  C8, as the code has it. Normalising twice is normalising once: an output of \<open>final_img\<close>
  never has the mode \<open>RGBA\<close>, so \<open>final_img\<close> returns it unchanged. A bitmap whose mode has
  no alpha channel is returned as it is, and a well-formed \<open>RGBA\<close> bitmap whose alpha is 255
  everywhere becomes the \<open>RGB\<close> bitmap of the same size and colours.
\<close>

theorem normalization_idempotent:
  assumes "final_img im = Inr out"
  shows "mode out \<noteq> ''RGBA'' \<and> final_img out = Inr out \<and>
     (\<not> has_alpha_channel (mode im) \<longrightarrow> out = im) \<and>
     (mode im = ''RGBA'' \<and> wf_image im \<and> list_all (\<lambda>p. p ! 3 = 255) (pixels im) \<longrightarrow>
        out = \<lparr>mode = ''RGB'', size_img = size_img im, pixels = map (take 3) (pixels im),
               transparency = None\<rparr>)"
proof -
  have m: "mode out \<noteq> ''RGBA''"
    using assms by (rule mode_final_img)
  then have again: "final_img out = Inr out"
    by (rule final_img_other)
  have same: "out = im" if "\<not> has_alpha_channel (mode im)"
  proof -
    from that have "mode im \<noteq> ''RGBA''"
      by (auto simp: has_alpha_channel_def)
    then have "final_img im = Inr im"
      by (rule final_img_other)
    with assms show ?thesis
      by simp
  qed
  have colours: "out = \<lparr>mode = ''RGB'', size_img = size_img im,
      pixels = map (take 3) (pixels im), transparency = None\<rparr>"
    if "mode im = ''RGBA''" and "wf_image im" and "list_all (\<lambda>p. p ! 3 = 255) (pixels im)"
  proof -
    from that(3) have "\<forall>p\<in>set (pixels im). p ! 3 = 255"
      by (simp add: list_all_iff)
    from opaque_RGBA_keeps_colours [OF that(1) that(2) this] assms show ?thesis
      by simp
  qed
  show ?thesis
    using m again same colours by blast
qed

theorem normalization_idempotent_witness:
  "mode opaque_RGBA = ''RGBA'' \<and> wf_image opaque_RGBA \<and>
   list_all (\<lambda>p. p ! 3 = 255) (pixels opaque_RGBA) \<and>
   final_img opaque_RGBA =
     Inr \<lparr>mode = ''RGB'', size_img = (2, 1), pixels = [[10, 20, 30], [0, 0, 0]],
          transparency = None\<rparr> \<and>
   final_img \<lparr>mode = ''RGB'', size_img = (2, 1), pixels = [[10, 20, 30], [0, 0, 0]],
          transparency = None\<rparr> =
     Inr \<lparr>mode = ''RGB'', size_img = (2, 1), pixels = [[10, 20, 30], [0, 0, 0]],
          transparency = None\<rparr> \<and>
   \<not> has_alpha_channel (mode plain_RGB) \<and> final_img plain_RGB = Inr plain_RGB \<and>
   final_img grey_alpha_LA = Inr grey_alpha_LA"
proof -
  have h1: "final_img opaque_RGBA =
     Inr \<lparr>mode = ''RGB'', size_img = (2, 1), pixels = [[10, 20, 30], [0, 0, 0]],
          transparency = None\<rparr>"
    by (rule opaque_bitmap_keeps_colours)
  have h2: "final_img plain_RGB = Inr plain_RGB"
    by (simp add: final_img_def plain_RGB_def)
  have h3: "final_img grey_alpha_LA = Inr grey_alpha_LA"
    by (simp add: final_img_def grey_alpha_LA_def)
  have o: "mode opaque_RGBA = ''RGBA''" "wf_image opaque_RGBA"
    "list_all (\<lambda>p. p ! 3 = 255) (pixels opaque_RGBA)"
    by (simp_all add: opaque_RGBA_def wf_image_def getbands_def)
  have p: "\<not> has_alpha_channel (mode plain_RGB)"
    by (simp add: plain_RGB_def has_alpha_channel_def)
  have again: "final_img \<lparr>mode = ''RGB'', size_img = (2, 1), pixels = [[10, 20, 30], [0, 0, 0]],
          transparency = None\<rparr> =
     Inr \<lparr>mode = ''RGB'', size_img = (2, 1), pixels = [[10, 20, 30], [0, 0, 0]],
          transparency = None\<rparr>"
    using normalization_idempotent [OF h1] by blast
  show ?thesis
    using again h1 h2 h3 o p by blast
qed

text \<open>
  C8 as stated does not hold: a fully opaque \<open>RGBA\<close> bitmap is changed by the
  normalization (it loses its alpha band and becomes an \<open>RGB\<close> bitmap), and not every
  output is fully opaque (the \<open>LA\<close> bitmap comes out with its transparency).
\<close>

theorem opaque_bitmap_is_changed:
  "wf_image opaque_RGBA \<and> pixels opaque_RGBA = [[10, 20, 30, 255], [0, 0, 0, 255]] \<and>
   final_img opaque_RGBA \<noteq> Inr opaque_RGBA \<and>
   final_img opaque_RGBA =
     Inr \<lparr>mode = ''RGB'', size_img = (2, 1), pixels = [[10, 20, 30], [0, 0, 0]],
          transparency = None\<rparr> \<and>
   final_img grey_alpha_LA = Inr grey_alpha_LA \<and> has_transparency_data grey_alpha_LA"
proof -
  have "final_img opaque_RGBA =
     Inr \<lparr>mode = ''RGB'', size_img = (2, 1), pixels = [[10, 20, 30], [0, 0, 0]],
          transparency = None\<rparr>"
    by (rule opaque_bitmap_keeps_colours)
  moreover have "opaque_RGBA \<noteq>
     \<lparr>mode = ''RGB'', size_img = (2, 1), pixels = [[10, 20, 30], [0, 0, 0]],
      transparency = None\<rparr>"
    by (simp add: opaque_RGBA_def)
  moreover have "wf_image opaque_RGBA"
    "pixels opaque_RGBA = [[10, 20, 30, 255], [0, 0, 0, 255]]"
    by (simp_all add: opaque_RGBA_def wf_image_def getbands_def)
  moreover have "final_img grey_alpha_LA = Inr grey_alpha_LA"
    "has_transparency_data grey_alpha_LA"
    by (simp_all add: final_img_def grey_alpha_LA_def has_transparency_data_def
        has_alpha_channel_def)
  ultimately show ?thesis
    by simp
qed

section \<open>ResultRenderer: the claims\<close>

text \<open>
  C2, as the code has it. When the response carries an error message, the renderer makes
  one call, \<open>st.error\<close>, with the text \<open>API Error: \<close> followed by the message, whatever
  entries the response also carries: no success banner, no entry line, no caption.
\<close>

theorem api_error_only:
  assumes "error_message r \<noteq> []"
  shows "render_response r = [StError (''API Error: '' @ error_message r)]"
  using assms by (simp add: render_response_def Let_def)

theorem api_error_only_witness:
  "error_message quota_response \<noteq> [] \<and>
   localized_object_annotations quota_response \<noteq> [] \<and>
   render_response quota_response = [StError ''API Error: quota exceeded'']"
proof -
  have h: "error_message quota_response \<noteq> []"
    by (simp add: quota_response_def)
  show ?thesis
    using api_error_only [OF h] h by (simp add: quota_response_def)
qed

text \<open>
  C2 as stated asks for exactly the message: for the message \<open>quota exceeded\<close> the text
  rendered is \<open>API Error: quota exceeded\<close>, which is not the message alone.
\<close>

theorem error_text_has_prefix:
  "error_message quota_response = ''quota exceeded'' \<and>
   render_response quota_response = [StError ''API Error: quota exceeded''] \<and>
   render_response quota_response \<noteq> [StError ''quota exceeded'']"
  by (simp add: quota_response_def render_response_def)

text \<open>
  C5. With no error message and no entry, the renderer ends with the information message
  that no object was localized, after the success banner and the heading, and renders no
  entry.
\<close>

theorem no_objects_info:
  assumes "error_message r = []" and "localized_object_annotations r = []"
  shows "render_response r =
     [StSuccess (check_mark @ '' Object Localization Complete''),
      StMarkdown (''### '' @ magnifier @ '' Detected Objects:''),
      StInfo ''No specific objects were localized in the selected region.'']"
  using assms by (simp add: render_response_def Let_def)

theorem no_objects_info_witness:
  "error_message empty_response = [] \<and> localized_object_annotations empty_response = [] \<and>
   render_response empty_response =
     [StSuccess (check_mark @ '' Object Localization Complete''),
      StMarkdown (''### '' @ magnifier @ '' Detected Objects:''),
      StInfo ''No specific objects were localized in the selected region.'']"
proof -
  have h1: "error_message empty_response = []" and h2: "localized_object_annotations empty_response = []"
    by (simp_all add: empty_response_def)
  show ?thesis
    using no_objects_info [OF h1 h2] h1 h2 by simp
qed

text \<open>
  C4. An entry whose polygon is missing or has fewer than three vertices still gets its
  label and score line; reading the vertices raises \<open>IndexError\<close>, which the handler turns
  into the fallback caption.
\<close>

theorem short_polygon_fallback:
  assumes "bounding_poly obj = None \<or> length (normalized_vertices obj) < 3"
  shows "box_text obj = Inl IndexError \<and>
     render_object obj =
       [StWrite (''- **'' @ name obj @ ''** (Score: '' @ format_2pct (score obj) @ '')''),
        StCaption ''Bounding box data unavailable.'']"
proof -
  have "length (normalized_vertices obj) < 3"
    using assms by (auto simp: normalized_vertices_def)
  then have "box_text obj = Inl IndexError"
    by (rule box_text_short)
  then show ?thesis
    by (simp add: render_object_def entry_line_def)
qed

theorem short_polygon_fallback_witness:
  "length (normalized_vertices two_vertex_dog) < 3 \<and>
   box_text two_vertex_dog = Inl IndexError \<and>
   render_object two_vertex_dog =
     [StWrite ''- **Dog** (Score: 50.00%)'', StCaption ''Bounding box data unavailable.'']"
proof -
  have h: "length (normalized_vertices two_vertex_dog) < 3"
    by (simp add: two_vertex_dog_def normalized_vertices_def)
  have n: "name two_vertex_dog = ''Dog''" and s: "score two_vertex_dog = PyFinite False 8388608 (- 24)"
    by (simp_all add: two_vertex_dog_def)
  show ?thesis
    using short_polygon_fallback [of two_vertex_dog] h
    by (simp add: n s format_half_score)
qed

text \<open>
  C3. With no error message, at least one entry and at least three vertices in every
  polygon, the renderer writes, after the banner and the heading, one line and one caption
  for each entry in the order of the response: the line holds the label and the score as
  a percentage with two decimals, the caption the first and the third vertex with two
  decimals each. The example is the entry \<open>Cat\<close> with score 0.8734.
\<close>

theorem entries_rendered_in_order:
  assumes "error_message r = []" and "localized_object_annotations r \<noteq> []"
    and "\<forall>obj\<in>set (localized_object_annotations r). 3 \<le> length (normalized_vertices obj)"
  shows "render_response r =
     [StSuccess (check_mark @ '' Object Localization Complete''),
      StMarkdown (''### '' @ magnifier @ '' Detected Objects:'')] @
     concat (map (\<lambda>obj.
       [StWrite (''- **'' @ name obj @ ''** (Score: '' @ format_2pct (score obj) @ '')''),
        StCaption (''Box: ('' @ format_2f (x_of (normalized_vertices obj ! 0)) @ '', '' @
          format_2f (y_of (normalized_vertices obj ! 0)) @ '') to ('' @
          format_2f (x_of (normalized_vertices obj ! 2)) @ '', '' @
          format_2f (y_of (normalized_vertices obj ! 2)) @ '')'')])
       (localized_object_annotations r))"
proof -
  have "map render_object (localized_object_annotations r) =
     map (\<lambda>obj.
       [StWrite (''- **'' @ name obj @ ''** (Score: '' @ format_2pct (score obj) @ '')''),
        StCaption (''Box: ('' @ format_2f (x_of (normalized_vertices obj ! 0)) @ '', '' @
          format_2f (y_of (normalized_vertices obj ! 0)) @ '') to ('' @
          format_2f (x_of (normalized_vertices obj ! 2)) @ '', '' @
          format_2f (y_of (normalized_vertices obj ! 2)) @ '')'')])
       (localized_object_annotations r)"
  proof (rule map_cong [OF refl])
    fix obj assume "obj \<in> set (localized_object_annotations r)"
    with assms(3) have "3 \<le> length (normalized_vertices obj)"
      by blast
    then show "render_object obj =
       [StWrite (''- **'' @ name obj @ ''** (Score: '' @ format_2pct (score obj) @ '')''),
        StCaption (''Box: ('' @ format_2f (x_of (normalized_vertices obj ! 0)) @ '', '' @
          format_2f (y_of (normalized_vertices obj ! 0)) @ '') to ('' @
          format_2f (x_of (normalized_vertices obj ! 2)) @ '', '' @
          format_2f (y_of (normalized_vertices obj ! 2)) @ '')'')]"
      by (simp add: render_object_def entry_line_def box_text_three)
  qed
  then have ro: "render_objects (localized_object_annotations r) =
     concat (map (\<lambda>obj.
       [StWrite (''- **'' @ name obj @ ''** (Score: '' @ format_2pct (score obj) @ '')''),
        StCaption (''Box: ('' @ format_2f (x_of (normalized_vertices obj ! 0)) @ '', '' @
          format_2f (y_of (normalized_vertices obj ! 0)) @ '') to ('' @
          format_2f (x_of (normalized_vertices obj ! 2)) @ '', '' @
          format_2f (y_of (normalized_vertices obj ! 2)) @ '')'')])
       (localized_object_annotations r))"
    by (simp only: render_objects_concat)
  have "render_response r =
     [StSuccess (check_mark @ '' Object Localization Complete''),
      StMarkdown (''### '' @ magnifier @ '' Detected Objects:'')] @
     render_objects (localized_object_annotations r)"
    using assms(1,2) by (simp add: render_response_def Let_def)
  then show ?thesis
    by (simp only: ro)
qed

theorem entries_rendered_in_order_witness:
  "error_message cat_response = [] \<and> localized_object_annotations cat_response = [cat] \<and>
   length (normalized_vertices cat) = 4 \<and>
   render_response cat_response =
     [StSuccess (check_mark @ '' Object Localization Complete''),
      StMarkdown (''### '' @ magnifier @ '' Detected Objects:''),
      StWrite ''- **Cat** (Score: 87.34%)'',
      StCaption ''Box: (0.10, 0.20) to (0.90, 0.80)'']"
proof -
  have h1: "error_message cat_response = []"
    and h2: "localized_object_annotations cat_response \<noteq> []"
    and h3: "\<forall>obj\<in>set (localized_object_annotations cat_response).
               3 \<le> length (normalized_vertices obj)"
    by (simp_all add: cat_response_def cat_def normalized_vertices_def)
  have l: "localized_object_annotations cat_response = [cat]"
    by (simp add: cat_response_def)
  have v: "normalized_vertices cat =
     [NormalizedVertex (PyFinite False 13421773 (- 27)) (PyFinite False 13421773 (- 26)),
      NormalizedVertex (PyFinite False 15099494 (- 24)) (PyFinite False 13421773 (- 26)),
      NormalizedVertex (PyFinite False 15099494 (- 24)) (PyFinite False 13421773 (- 24)),
      NormalizedVertex (PyFinite False 13421773 (- 27)) (PyFinite False 13421773 (- 24))]"
    and n: "name cat = ''Cat''" and s: "score cat = PyFinite False 14653220 (- 24)"
    by (simp_all add: cat_def normalized_vertices_def)
  show ?thesis
    using entries_rendered_in_order [OF h1 h2 h3] h1
    by (simp add: l v n s format_cat_score format_cat_box del: format_2f.simps)
qed

text \<open>
  C10. Once the service has answered, a detection run ends without an exception: it renders
  the response and nothing else. Every entry gets its line and one caption, the vertex
  caption as soon as the polygon has three vertices and the fallback otherwise, and
  whatever exception the body of the \<open>try\<close> raises becomes the fallback caption.
\<close>

theorem entry_rendering_total:
  assumes "final_img im = Inr fin" and "save_JPEG env fin = Inr content"
    and "object_localization env c content = Inr r"
  shows "run_detection env (Some c) im =
       ([StInfo ''Running Object Localization on cropped image...'', JpegSave fin,
         ObjectLocalization content] @ render_response r, None) \<and>
     render_objects (localized_object_annotations r) =
       concat (map (\<lambda>obj.
         [StWrite (''- **'' @ name obj @ ''** (Score: '' @ format_2pct (score obj) @ '')''),
          StCaption
            (if length (normalized_vertices obj) < 3 then ''Bounding box data unavailable.''
             else ''Box: ('' @ format_2f (x_of (normalized_vertices obj ! 0)) @ '', '' @
               format_2f (y_of (normalized_vertices obj ! 0)) @ '') to ('' @
               format_2f (x_of (normalized_vertices obj ! 2)) @ '', '' @
               format_2f (y_of (normalized_vertices obj ! 2)) @ '')'')])
         (localized_object_annotations r)) \<and>
     (\<forall>obj e. box_text obj = Inl e \<longrightarrow>
        render_object obj =
          [StWrite (''- **'' @ name obj @ ''** (Score: '' @ format_2pct (score obj) @ '')''),
           StCaption ''Bounding box data unavailable.''])"
proof -
  have run: "run_detection env (Some c) im =
       ([StInfo ''Running Object Localization on cropped image...'', JpegSave fin,
         ObjectLocalization content] @ render_response r, None)"
    using assms by (simp add: run_detection_def)
  have one: "render_object obj =
         [StWrite (''- **'' @ name obj @ ''** (Score: '' @ format_2pct (score obj) @ '')''),
          StCaption
            (if length (normalized_vertices obj) < 3 then ''Bounding box data unavailable.''
             else ''Box: ('' @ format_2f (x_of (normalized_vertices obj ! 0)) @ '', '' @
               format_2f (y_of (normalized_vertices obj ! 0)) @ '') to ('' @
               format_2f (x_of (normalized_vertices obj ! 2)) @ '', '' @
               format_2f (y_of (normalized_vertices obj ! 2)) @ '')'')]" for obj
  proof (cases "length (normalized_vertices obj) < 3")
    case True
    then show ?thesis
      by (simp add: render_object_def entry_line_def box_text_short)
  next
    case False
    then have "3 \<le> length (normalized_vertices obj)"
      by simp
    with False show ?thesis
      by (simp add: render_object_def entry_line_def box_text_three)
  qed
  have loop: "render_objects (localized_object_annotations r) =
       concat (map (\<lambda>obj.
         [StWrite (''- **'' @ name obj @ ''** (Score: '' @ format_2pct (score obj) @ '')''),
          StCaption
            (if length (normalized_vertices obj) < 3 then ''Bounding box data unavailable.''
             else ''Box: ('' @ format_2f (x_of (normalized_vertices obj ! 0)) @ '', '' @
               format_2f (y_of (normalized_vertices obj ! 0)) @ '') to ('' @
               format_2f (x_of (normalized_vertices obj ! 2)) @ '', '' @
               format_2f (y_of (normalized_vertices obj ! 2)) @ '')'')])
         (localized_object_annotations r))"
    unfolding render_objects_concat by (rule arg_cong [where f = concat], rule map_cong [OF refl], rule one)
  have caught: "render_object obj =
          [StWrite (''- **'' @ name obj @ ''** (Score: '' @ format_2pct (score obj) @ '')''),
           StCaption ''Bounding box data unavailable.'']" if "box_text obj = Inl e" for obj e
    using that by (simp add: render_object_def entry_line_def)
  show ?thesis
    using run loop caught by blast
qed

theorem entry_rendering_total_witness:
  "final_img plain_RGB = Inr plain_RGB \<and>
   save_JPEG dog_env plain_RGB = Inr [255, 216] \<and>
   object_localization dog_env () [255, 216] = Inr dog_response \<and>
   run_detection dog_env (Some ()) plain_RGB =
     ([StInfo ''Running Object Localization on cropped image...'', JpegSave plain_RGB,
       ObjectLocalization [255, 216],
       StSuccess (check_mark @ '' Object Localization Complete''),
       StMarkdown (''### '' @ magnifier @ '' Detected Objects:''),
       StWrite ''- **Dog** (Score: 50.00%)'',
       StCaption ''Bounding box data unavailable.'',
       StWrite ''- **Dog** (Score: 50.00%)'',
       StCaption ''Box: (0.00, 0.00) to (1.00, 1.00)''], None)"
proof -
  have h1: "final_img plain_RGB = Inr plain_RGB"
    by (simp add: final_img_def plain_RGB_def)
  have h2: "save_JPEG dog_env plain_RGB = Inr [255, 216]"
    by (simp add: dog_env_def ready_env_def plain_RGB_def)
  have h3: "object_localization dog_env () [255, 216] = Inr dog_response"
    by (simp add: dog_env_def)
  note t = entry_rendering_total [OF h1 h2 h3]
  have l: "localized_object_annotations dog_response = [two_vertex_dog, three_vertex_dog]"
    and em: "error_message dog_response = []"
    by (simp_all add: dog_response_def)
  have v2: "normalized_vertices two_vertex_dog =
      [NormalizedVertex (PyFinite False 0 0) (PyFinite False 0 0),
       NormalizedVertex (PyFinite False 8388608 (- 23)) (PyFinite False 8388608 (- 23))]"
    and v3: "normalized_vertices three_vertex_dog =
      [NormalizedVertex (PyFinite False 0 0) (PyFinite False 0 0),
       NormalizedVertex (PyFinite False 8388608 (- 23)) (PyFinite False 0 0),
       NormalizedVertex (PyFinite False 8388608 (- 23)) (PyFinite False 8388608 (- 23))]"
    and n: "name two_vertex_dog = ''Dog''" "name three_vertex_dog = ''Dog''"
    and s: "score two_vertex_dog = PyFinite False 8388608 (- 24)"
      "score three_vertex_dog = PyFinite False 8388608 (- 24)"
    by (simp_all add: two_vertex_dog_def three_vertex_dog_def normalized_vertices_def)
  have ro: "render_objects (localized_object_annotations dog_response) =
      [StWrite ''- **Dog** (Score: 50.00%)'',
       StCaption ''Bounding box data unavailable.'',
       StWrite ''- **Dog** (Score: 50.00%)'',
       StCaption ''Box: (0.00, 0.00) to (1.00, 1.00)'']"
    unfolding t [THEN conjunct2, THEN conjunct1]
    by (simp add: l v2 v3 n s format_half_score format_unit_box del: format_2f.simps)
  have rr: "render_response dog_response =
      [StSuccess (check_mark @ '' Object Localization Complete''),
       StMarkdown (''### '' @ magnifier @ '' Detected Objects:'')] @
      render_objects (localized_object_annotations dog_response)"
    by (simp add: render_response_def em l)
  show ?thesis
    using h1 h2 h3 by (simp add: t [THEN conjunct1] rr ro)
qed

section \<open>CredentialLoader and the gate: the claim\<close>




end
